theory Spec2Isabelle
  imports Complex_Main
begin

section \<open>Values stored in the numpy arrays\<close>

text \<open>
  The controller of \<^verbatim>\<open>hardware/keithley.py\<close> keeps its samples in numpy \<^verbatim>\<open>float64\<close>
  arrays. The model keeps the special values of that type apart from the finite ones:
  \<open>Fin x\<close> is a finite value (\<open>Fin 0\<close> is \<open>+0.0\<close>), \<open>NegZero\<close> is \<open>-0.0\<close>, and
  \<open>PInf\<close>, \<open>NInf\<close>, \<open>NaN\<close> are the two infinities and not-a-number. Finite arithmetic
  is idealised (exact reals: no rounding, no overflow); what is modelled exactly is the
  behaviour at zero, infinity and not-a-number, where numpy scalars return a special value
  (with a RuntimeWarning) and never raise.
\<close>

datatype npfloat = Fin real | NegZero | PInf | NInf | NaN

fun signbit :: "npfloat \<Rightarrow> bool" where
  "signbit (Fin x) = (x < 0)"
| "signbit NegZero = True"
| "signbit PInf = False"
| "signbit NInf = True"
| "signbit NaN = False"

fun is_zero :: "npfloat \<Rightarrow> bool" where
  "is_zero (Fin x) = (x = 0)"
| "is_zero NegZero = True"
| "is_zero _ = False"

fun is_inf :: "npfloat \<Rightarrow> bool" where
  "is_inf PInf = True"
| "is_inf NInf = True"
| "is_inf _ = False"

fun magnitude :: "npfloat \<Rightarrow> real" where
  "magnitude (Fin x) = x"
| "magnitude _ = 0"

definition inf_of :: "bool \<Rightarrow> npfloat" where
  "inf_of negative = (if negative then NInf else PInf)"

definition zero_of :: "bool \<Rightarrow> npfloat" where
  "zero_of negative = (if negative then NegZero else Fin 0)"

definition fin_of :: "bool \<Rightarrow> real \<Rightarrow> npfloat" where
  "fin_of negative x = (if x = 0 then zero_of negative else Fin x)"

text \<open>Unary minus (\<^verbatim>\<open>- x\<close>), \<^verbatim>\<open>abs(x)\<close>, \<^verbatim>\<open>x * y\<close> and \<^verbatim>\<open>x / y\<close> on float64 scalars.\<close>

fun np_neg :: "npfloat \<Rightarrow> npfloat" where
  "np_neg (Fin x) = (if x = 0 then NegZero else Fin (- x))"
| "np_neg NegZero = Fin 0"
| "np_neg PInf = NInf"
| "np_neg NInf = PInf"
| "np_neg NaN = NaN"

fun np_abs :: "npfloat \<Rightarrow> npfloat" where
  "np_abs (Fin x) = Fin \<bar>x\<bar>"
| "np_abs NegZero = Fin 0"
| "np_abs PInf = PInf"
| "np_abs NInf = PInf"
| "np_abs NaN = NaN"

definition np_mul :: "npfloat \<Rightarrow> npfloat \<Rightarrow> npfloat" where
  "np_mul a b =
     (if a = NaN \<or> b = NaN then NaN
      else if is_inf a then (if is_zero b then NaN else inf_of (signbit a \<noteq> signbit b))
      else if is_inf b then (if is_zero a then NaN else inf_of (signbit a \<noteq> signbit b))
      else fin_of (signbit a \<noteq> signbit b) (magnitude a * magnitude b))"

definition np_div :: "npfloat \<Rightarrow> npfloat \<Rightarrow> npfloat" where
  "np_div a b =
     (if a = NaN \<or> b = NaN then NaN
      else if is_inf a then (if is_inf b then NaN else inf_of (signbit a \<noteq> signbit b))
      else if is_inf b then zero_of (signbit a \<noteq> signbit b)
      else if is_zero b then (if is_zero a then NaN else inf_of (signbit a \<noteq> signbit b))
      else fin_of (signbit a \<noteq> signbit b) (magnitude a / magnitude b))"

section \<open>Exceptions, signals and instrument commands\<close>

text \<open>
  The exceptions that can leave a method of the class: the transport error of pyvisa
  (\<^verbatim>\<open>pyvisa.errors.VisaIOError\<close>), the \<^verbatim>\<open>ValueError\<close> of \<^verbatim>\<open>np.linspace\<close> for a
  negative \<^verbatim>\<open>num\<close>, the \<^verbatim>\<open>AttributeError\<close> of a method call on \<^verbatim>\<open>None\<close>, the
  \<^verbatim>\<open>IndexError\<close> of an array access out of range, and any other exception of the
  instrument driver.
\<close>

datatype error = VisaIOError | ValueError | AttributeError | IndexError | OtherError

text \<open>The three Qt signals of the class: \<^verbatim>\<open>update\<close>, \<^verbatim>\<open>save\<close> and \<^verbatim>\<open>to_log\<close>.\<close>

datatype signal = Update int | Save int | ToLog string

text \<open>The calls made on the pymeasure \<^verbatim>\<open>Keithley2400\<close> object, in the order of the source.\<close>

datatype command =
    Open string
  | Reset
  | UseFrontTerminals
  | SetComplianceCurrent real
  | MeasureCurrent
  | ConfigBuffer int
  | EnableSource
  | AdapterWrite string
  | SetSourceVoltage real
  | StartBuffer
  | WaitForBuffer
  | GetMeanVoltage
  | GetMeanCurrent
  | GetStdCurrent
  | Shutdown

section \<open>The controller\<close>

text \<open>
  Where the background thread stands. The thread is interleaved with its caller at the
  loop heads of \<^verbatim>\<open>background_thread\<close>:
  \<^item> \<open>Setup\<close>: before lines 83-84 (the one-second sleep and \<^verbatim>\<open>config_keithley()\<close>);
  \<^item> \<open>WhileHead\<close>: at the test of \<^verbatim>\<open>while self.is_run\<close> (line 85);
  \<^item> \<open>ForHead k\<close>: at the top of the \<^verbatim>\<open>for repetition\<close> loop (line 86), \<open>k\<close> the next index;
  \<^item> \<open>PointHead k dp\<close>: at the top of the \<^verbatim>\<open>for dp\<close> loop (line 90) of repetition \<open>k\<close>;
  \<^item> \<open>RepEnd k\<close>: before line 105, the end of repetition \<open>k\<close>;
  \<^item> \<open>WhileEnd\<close>: before line 111, after the \<^verbatim>\<open>for repetition\<close> loop;
  \<^item> \<open>Exited\<close>: the method has returned; \<open>Crashed err\<close>: an exception has ended the thread.
\<close>

datatype pc =
    Setup
  | WhileHead
  | ForHead nat
  | PointHead nat nat
  | RepEnd nat
  | WhileEnd
  | Exited
  | Crashed error

text \<open>
  The attributes of a \<^verbatim>\<open>Keithley\<close> object, with the names of the source.
  \<open>gpib_thread\<close> is \<open>None\<close> until a thread has been started, then where that thread
  stands. \<open>sourcemeter\<close> is \<open>None\<close> or the port of the opened instrument. The last
  four fields are not attributes of the class: \<open>signals\<close> lists the emitted signals,
  \<open>commands\<close> the calls made on the instrument, \<open>tick\<close> counts the questions put to the
  outside world, and \<open>spawned\<close> counts the calls of \<^verbatim>\<open>threading.Thread(...).start()\<close>.
\<close>

record keithley =
  gpib_port :: string
  n_data_points :: int
  averages :: int
  repetitions :: int
  repetition_delay :: real
  delay :: real
  max_voltage :: real
  min_voltage :: real
  compliance_current :: real
  voltages_set :: "real list"
  times :: "npfloat list"
  voltages :: "npfloat list"
  currents :: "npfloat list"
  currents_std :: "npfloat list"
  resistances :: "npfloat list"
  powers :: "npfloat list"
  is_run :: bool
  is_receiving :: bool
  gpib_thread :: "pc option"
  sourcemeter :: "string option"
  signals :: "signal list"
  commands :: "command list"
  tick :: nat
  spawned :: nat

text \<open>
  What \<^verbatim>\<open>Keithley2400(str(self.gpib_port))\<close> does: it returns the instrument, raises
  \<^verbatim>\<open>pyvisa.errors.VisaIOError\<close>, or raises another exception.
\<close>

datatype connection = Opened | RaisesVisaIOError | RaisesOther

text \<open>
  The outside world, asked in the order of \<open>tick\<close>: what opening the instrument does,
  whether an instrument call raises a transport error, the value a query returns, and
  the reading of \<^verbatim>\<open>time.time()\<close>.
\<close>

record env =
  opens :: "nat \<Rightarrow> connection"
  fails :: "nat \<Rightarrow> bool"
  reads :: "nat \<Rightarrow> npfloat"
  clock :: "nat \<Rightarrow> real"

text \<open>
  The keyword arguments of \<^verbatim>\<open>config_keithley(**kwargs)\<close>. Only the keys
  \<^verbatim>\<open>compliance_current\<close> and \<^verbatim>\<open>averages\<close> are ever looked up; \<open>kw_other\<close> holds every
  other keyword argument of a call.
\<close>

record kwargs =
  kw_compliance_current :: "real option"
  kw_averages :: "int option"
  kw_other :: "(string \<times> real) list"

definition no_kwargs :: kwargs where
  "no_kwargs = \<lparr>kw_compliance_current = None, kw_averages = None, kw_other = []\<rparr>"

subsection \<open>numpy helpers of the constructor\<close>

text \<open>
  \<^verbatim>\<open>np.linspace(start, stop, num)\<close> is a function of numpy, not of this repository; the
  definition follows numpy's implementation for a scalar \<^verbatim>\<open>start\<close> and \<^verbatim>\<open>stop\<close> with the
  default \<^verbatim>\<open>endpoint=True\<close>: a negative \<^verbatim>\<open>num\<close> raises \<^verbatim>\<open>ValueError\<close>; with
  \<^verbatim>\<open>div = num - 1\<close> and \<^verbatim>\<open>delta = stop - start\<close>, entry \<open>i\<close> is \<^verbatim>\<open>i * (delta / div) + start\<close>
  when \<^verbatim>\<open>div > 0\<close> and \<^verbatim>\<open>i * delta + start\<close> otherwise; at last, when \<^verbatim>\<open>num > 1\<close>, the
  last entry is overwritten with \<^verbatim>\<open>stop\<close>.
\<close>

definition linspace :: "real \<Rightarrow> real \<Rightarrow> int \<Rightarrow> error + real list" where
  "linspace start stop num =
     (if num < 0 then Inl ValueError
      else
        let div' = num - 1;
            delta = stop - start;
            y = map (\<lambda>i. (if div' > 0 then real i * (delta / real_of_int div') else real i * delta) + start)
                  [0 ..< nat num]
        in Inr (if num > 1 then y[nat num - 1 := stop] else y))"

text \<open>\<^verbatim>\<open>np.zeros_like(a)\<close>: an array of zeros of the length of \<^verbatim>\<open>a\<close>.\<close>

definition zeros_like :: "'a list \<Rightarrow> npfloat list" where
  "zeros_like a = replicate (length a) (Fin 0)"

subsection \<open>The constructor (lines 17-40)\<close>

definition init ::
  "string \<Rightarrow> int \<Rightarrow> int \<Rightarrow> int \<Rightarrow> real \<Rightarrow> real \<Rightarrow> real \<Rightarrow> real \<Rightarrow> real \<Rightarrow> error + keithley" where
  "init port n avg reps rep_delay dly min_v max_v compliance =
     (case linspace min_v max_v n of
        Inl err \<Rightarrow> Inl err
      | Inr vs \<Rightarrow> Inr
          \<lparr>gpib_port = port, n_data_points = n, averages = avg, repetitions = reps,
           repetition_delay = rep_delay, delay = dly, max_voltage = max_v, min_voltage = min_v,
           compliance_current = compliance, voltages_set = vs,
           times = zeros_like vs, voltages = zeros_like vs, currents = zeros_like vs,
           currents_std = zeros_like vs, resistances = zeros_like vs, powers = zeros_like vs,
           is_run = True, is_receiving = False, gpib_thread = None, sourcemeter = None,
           signals = [], commands = [], tick = 0, spawned = 0\<rparr>)"

subsection \<open>Statements that may raise\<close>

text \<open>
  A statement takes the object and returns it updated, with the value of the statement
  or the exception it raised; what the statement did before it raised stays done.
\<close>

type_synonym 'a stmt = "keithley \<Rightarrow> (error + 'a) \<times> keithley"

definition andthen :: "'a stmt \<Rightarrow> ('a \<Rightarrow> 'b stmt) \<Rightarrow> 'b stmt" where
  "andthen m f s = (case m s of (Inl err, s') \<Rightarrow> (Inl err, s') | (Inr x, s') \<Rightarrow> f x s')"

definition emit :: "signal \<Rightarrow> keithley \<Rightarrow> keithley" where
  "emit sig s = s\<lparr>signals := signals s @ [sig]\<rparr>"

definition emits :: "signal \<Rightarrow> unit stmt" where
  "emits sig s = (Inr (), emit sig s)"

text \<open>
  A call on \<^verbatim>\<open>self.sourcemeter\<close>; \<open>query\<close> is a call that returns a value. While
  \<^verbatim>\<open>self.sourcemeter\<close> is \<^verbatim>\<open>None\<close> the call raises \<^verbatim>\<open>AttributeError\<close>.
\<close>

definition instr :: "env \<Rightarrow> command \<Rightarrow> unit stmt" where
  "instr e c s =
     (if sourcemeter s = None then (Inl AttributeError, s)
      else
        let s' = s\<lparr>commands := commands s @ [c], tick := tick s + 1\<rparr>
        in if fails e (tick s) then (Inl VisaIOError, s') else (Inr (), s'))"

definition query :: "env \<Rightarrow> command \<Rightarrow> npfloat stmt" where
  "query e c s =
     (if sourcemeter s = None then (Inl AttributeError, s)
      else
        let s' = s\<lparr>commands := commands s @ [c], tick := tick s + 1\<rparr>
        in if fails e (tick s) then (Inl VisaIOError, s') else (Inr (reads e (tick s)), s'))"

definition now :: "env \<Rightarrow> npfloat stmt" where
  "now e s = (Inr (Fin (clock e (tick s))), s\<lparr>tick := tick s + 1\<rparr>)"

text \<open>Reading and writing \<^verbatim>\<open>a[dp]\<close>, for \<open>dp\<close> of a \<^verbatim>\<open>range\<close> (never negative).\<close>

definition load :: "(keithley \<Rightarrow> 'a list) \<Rightarrow> nat \<Rightarrow> 'a stmt" where
  "load a dp s = (if dp < length (a s) then (Inr (a s ! dp), s) else (Inl IndexError, s))"

definition store ::
  "(keithley \<Rightarrow> npfloat list) \<Rightarrow> ((npfloat list \<Rightarrow> npfloat list) \<Rightarrow> keithley \<Rightarrow> keithley) \<Rightarrow>
   nat \<Rightarrow> npfloat \<Rightarrow> unit stmt" where
  "store a a_update dp v s =
     (if dp < length (a s) then (Inr (), a_update (\<lambda>xs. xs[dp := v]) s) else (Inl IndexError, s))"

subsection \<open>Log messages\<close>

definition log_line :: "string \<Rightarrow> string \<Rightarrow> string" where
  "log_line colour msg = ''<span style=\" color:#'' @ colour @ '';\" >'' @ msg @ ''</span>''"

definition digit :: "nat \<Rightarrow> char" where
  "digit d = ''0123456789'' ! d"

fun str :: "nat \<Rightarrow> string" where
  "str n = (if n < 10 then [digit n] else str (n div 10) @ [digit (n mod 10)])"

declare str.simps [simp del]

subsection \<open>\<^verbatim>\<open>config_keithley\<close> (lines 42-60)\<close>

text \<open>Lines 53-60: the calls that follow a successful connection.\<close>

definition setup_instrument :: "env \<Rightarrow> kwargs \<Rightarrow> unit stmt" where
  "setup_instrument e kw =
     andthen (instr e Reset) (\<lambda>_.
     andthen (instr e UseFrontTerminals) (\<lambda>_.
     andthen (\<lambda>s. instr e (SetComplianceCurrent
                (case kw_compliance_current kw of Some c \<Rightarrow> c | None \<Rightarrow> compliance_current s)) s) (\<lambda>_.
     andthen (instr e MeasureCurrent) (\<lambda>_.
     andthen (\<lambda>s. (Inr (), s\<lparr>averages := (case kw_averages kw of Some a \<Rightarrow> a | None \<Rightarrow> averages s)\<rparr>)) (\<lambda>_.
     andthen (\<lambda>s. instr e (ConfigBuffer (averages s)) s) (\<lambda>_.
     instr e EnableSource))))))"

text \<open>
  Lines 43-52, then \<open>setup_instrument\<close>. Only \<^verbatim>\<open>VisaIOError\<close> is caught by the
  \<^verbatim>\<open>except\<close> clause; any other exception of the constructor of \<^verbatim>\<open>Keithley2400\<close> leaves
  the method.
\<close>

definition config_keithley :: "env \<Rightarrow> kwargs \<Rightarrow> unit stmt" where
  "config_keithley e kw s =
     (let s1 = emit (ToLog (log_line ''000000'' (''Trying to connect to: '' @ gpib_port s @ ''.''))) s
      in if gpib_port s1 = ''dummy'' then (Inr (), s1)
      else
        let s2 = s1\<lparr>commands := commands s1 @ [Open (gpib_port s1)], tick := tick s1 + 1\<rparr>
        in case opens e (tick s1) of
             Opened \<Rightarrow>
               setup_instrument e kw
                 (emit (ToLog (log_line ''32cd32'' (''Connected to '' @ gpib_port s2 @ ''.'')))
                    (s2\<lparr>sourcemeter := Some (gpib_port s2)\<rparr>))
           | RaisesVisaIOError \<Rightarrow>
               (Inr (), (emit (ToLog (log_line ''ff0000'' (''Failed to connect with '' @ gpib_port s2 @ ''.''))) s2)
                          \<lparr>gpib_port := ''dummy''\<rparr>)
           | RaisesOther \<Rightarrow> (Inl OtherError, s2))"

subsection \<open>\<^verbatim>\<open>background_thread\<close> (lines 82-111)\<close>

text \<open>One pass of the body of the \<^verbatim>\<open>for dp\<close> loop, lines 91-103.\<close>

definition measure_point :: "env \<Rightarrow> nat \<Rightarrow> unit stmt" where
  "measure_point e dp =
     andthen (instr e (AdapterWrite '':TRAC:FEED:CONT NEXT;'')) (\<lambda>_.
     andthen (load voltages_set dp) (\<lambda>v.
     andthen (instr e (SetSourceVoltage v)) (\<lambda>_.
     andthen (instr e StartBuffer) (\<lambda>_.
     andthen (instr e WaitForBuffer) (\<lambda>_.
     andthen (now e) (\<lambda>t.
     andthen (store times times_update dp t) (\<lambda>_.
     andthen (query e GetMeanVoltage) (\<lambda>mean_voltage.
     andthen (store voltages voltages_update dp mean_voltage) (\<lambda>_.
     andthen (query e GetMeanCurrent) (\<lambda>mean_current.
     andthen (store currents currents_update dp (np_neg mean_current)) (\<lambda>_.
     andthen (query e GetStdCurrent) (\<lambda>std_current.
     andthen (store currents_std currents_std_update dp std_current) (\<lambda>_.
     andthen (load voltages dp) (\<lambda>v1.
     andthen (load currents dp) (\<lambda>c1.
     andthen (store resistances resistances_update dp (np_abs (np_div v1 c1))) (\<lambda>_.
     andthen (load voltages dp) (\<lambda>v2.
     andthen (load currents dp) (\<lambda>c2.
     andthen (store powers powers_update dp (np_abs (np_mul v2 c2))) (\<lambda>_.
     andthen (emits (Update (int dp))) (\<lambda>_.
     (\<lambda>s. (Inr (), s\<lparr>is_receiving := True\<rparr>))))))))))))))))))))))"

definition goto :: "pc \<Rightarrow> keithley \<Rightarrow> keithley" where
  "goto p s = s\<lparr>gpib_thread := Some p\<rparr>"

text \<open>A statement of the thread: an exception ends the thread, otherwise it goes on at \<open>p\<close>.\<close>

definition run_stmt :: "unit stmt \<Rightarrow> pc \<Rightarrow> keithley \<Rightarrow> keithley" where
  "run_stmt m p s = (case m s of (Inl err, s') \<Rightarrow> goto (Crashed err) s' | (Inr _, s') \<Rightarrow> goto p s')"

text \<open>
  One step of the thread, from one loop head to the next. \<^verbatim>\<open>range(self.repetitions)\<close> and
  \<^verbatim>\<open>range(self.n_data_points)\<close> are built once in the source and the bounds are read here
  at every step: no method assigns either attribute.
\<close>

definition background_thread_step :: "env \<Rightarrow> keithley \<Rightarrow> keithley" where
  "background_thread_step e s =
     (case gpib_thread s of
        None \<Rightarrow> s
      | Some Setup \<Rightarrow> run_stmt (config_keithley e no_kwargs) WhileHead s
      | Some WhileHead \<Rightarrow> if is_run s then goto (ForHead 0) s else goto Exited s
      | Some (ForHead k) \<Rightarrow>
          if int k < repetitions s then
            (if gpib_port s = ''dummy'' then goto (RepEnd k) (s\<lparr>is_receiving := True\<rparr>)
             else goto (PointHead k 0) s)
          else goto WhileEnd s
      | Some (PointHead k dp) \<Rightarrow>
          if int dp < n_data_points s then run_stmt (measure_point e dp) (PointHead k (dp + 1)) s
          else run_stmt (instr e (SetSourceVoltage 0)) (RepEnd k) s
      | Some (RepEnd k) \<Rightarrow>
          (let s1 = emit (Save (int k)) s;
               s2 = emit (ToLog (log_line ''1e90ff'' (''Finished curve #'' @ str (k + 1)))) s1;
               s3 = (if int k < repetitions s2 - 1 then s2
                     else emit (ToLog (log_line ''32cd32'' ''Finished IV scan.'')) s2)
           in goto (ForHead (k + 1)) s3)
      | Some WhileEnd \<Rightarrow> goto WhileHead (s\<lparr>is_run := False\<rparr>)
      | Some Exited \<Rightarrow> s
      | Some (Crashed err) \<Rightarrow> s)"

text \<open>The thread object is alive until the method returns or raises.\<close>

definition thread_alive :: "keithley \<Rightarrow> bool" where
  "thread_alive s =
     (case gpib_thread s of
        None \<Rightarrow> False
      | Some Exited \<Rightarrow> False
      | Some (Crashed err) \<Rightarrow> False
      | Some p \<Rightarrow> True)"

text \<open>
  \<^verbatim>\<open>self.gpib_thread.join()\<close>: the caller waits, and the thread runs until it is no longer
  alive. That the thread always ends is proved further down.
\<close>

function join :: "env \<Rightarrow> keithley \<Rightarrow> keithley" where
  "join e s = (if thread_alive s then join e (background_thread_step e s) else s)"
  by pat_completeness auto

subsection \<open>\<^verbatim>\<open>read_keithley_start\<close> (lines 62-70)\<close>

text \<open>
  The loop of lines 69-70: the caller sleeps until the thread has set \<^verbatim>\<open>is_receiving\<close>.
  When the thread ends without setting it, the loop never ends: the value is \<open>None\<close>.
\<close>

partial_function (option) wait_receiving :: "env \<Rightarrow> keithley \<Rightarrow> keithley option" where
  "wait_receiving e s =
     (if is_receiving s then Some s else wait_receiving e (background_thread_step e s))"

declare wait_receiving.simps [code]

text \<open>The object right after \<^verbatim>\<open>self.gpib_thread.start()\<close> (lines 66-67).\<close>

definition start_thread :: "keithley \<Rightarrow> keithley" where
  "start_thread s = s\<lparr>gpib_thread := Some Setup, spawned := spawned s + 1\<rparr>"

definition read_keithley_start :: "env \<Rightarrow> keithley \<Rightarrow> keithley option" where
  "read_keithley_start e s =
     (let s1 = s\<lparr>is_run := True, is_receiving := False\<rparr>
      in if gpib_thread s1 = None then wait_receiving e (start_thread s1) else Some s1)"

subsection \<open>\<^verbatim>\<open>get_keithley_data\<close> (lines 72-80)\<close>

definition get_keithley_data :: "keithley \<Rightarrow> (string \<times> npfloat list) list" where
  "get_keithley_data s =
     [(''Time (s)'', times s), (''Voltage (V)'', voltages s), (''Current (A)'', currents s),
      (''Current Std (A)'', currents_std s), (''Resistance (Ohm)'', resistances s),
      (''Power (W)'', powers s)]"

subsection \<open>\<^verbatim>\<open>close\<close> (lines 113-119)\<close>

definition close :: "env \<Rightarrow> unit stmt" where
  "close e s =
     (let s1 = s\<lparr>is_run := False\<rparr>;
          s2 = (if gpib_thread s1 \<noteq> None then join e s1 else s1)
      in if gpib_port s2 \<noteq> ''dummy'' then
           andthen (instr e Shutdown)
             (\<lambda>_. emits (ToLog (log_line ''000000'' ''Disconnected Keithley...''))) s2
         else (Inr (), s2))"

subsection \<open>Callers\<close>

text \<open>
  What can happen to a controller: its thread takes a step, or the caller calls one of
  the methods. A method that raises leaves the object as it was when it raised; a call of
  \<^verbatim>\<open>read_keithley_start\<close> that never returns ends the run (\<open>None\<close>).
\<close>

datatype action = ThreadStep | CallConfig kwargs | CallStart | CallClose

fun perform :: "env \<Rightarrow> action \<Rightarrow> keithley \<Rightarrow> keithley option" where
  "perform e ThreadStep s = Some (background_thread_step e s)"
| "perform e (CallConfig kw) s = Some (snd (config_keithley e kw s))"
| "perform e CallStart s = read_keithley_start e s"
| "perform e CallClose s = Some (snd (close e s))"

fun run :: "env \<Rightarrow> action list \<Rightarrow> keithley \<Rightarrow> keithley option" where
  "run e [] s = Some s"
| "run e (a # as) s = (case perform e a s of None \<Rightarrow> None | Some s' \<Rightarrow> run e as s')"

subsection \<open>Observations\<close>

text \<open>The arguments of the \<^verbatim>\<open>save\<close> signals among the emitted signals, in order.\<close>

fun saved :: "signal list \<Rightarrow> int list" where
  "saved [] = []"
| "saved (Save k # sigs) = k # saved sigs"
| "saved (sig # sigs) = saved sigs"

text \<open>All seven arrays have the length \<^verbatim>\<open>n_data_points\<close>.\<close>

definition buffers_sized :: "keithley \<Rightarrow> bool" where
  "buffers_sized s =
     (length (voltages_set s) = nat (n_data_points s) \<and>
      length (times s) = nat (n_data_points s) \<and>
      length (voltages s) = nat (n_data_points s) \<and>
      length (currents s) = nat (n_data_points s) \<and>
      length (currents_std s) = nat (n_data_points s) \<and>
      length (resistances s) = nat (n_data_points s) \<and>
      length (powers s) = nat (n_data_points s))"

text \<open>A statement \<open>m\<close> keeps \<open>g\<close> when \<open>g\<close> of the object is the same after \<open>m\<close>.\<close>

definition keeps :: "(keithley \<Rightarrow> 'x) \<Rightarrow> 'a stmt \<Rightarrow> bool" where
  "keeps g m = (\<forall>s. g (snd (m s)) = g s)"

text \<open>The measure of the thread's progress: the part of the method, the repetitions and the points still to do.\<close>

definition phase :: "keithley \<Rightarrow> nat" where
  "phase s =
     (case gpib_thread s of
        None \<Rightarrow> 0
      | Some Exited \<Rightarrow> 0
      | Some (Crashed err) \<Rightarrow> 0
      | Some WhileHead \<Rightarrow> (if is_run s then 4 else 1)
      | Some WhileEnd \<Rightarrow> 2
      | Some Setup \<Rightarrow> 5
      | Some p \<Rightarrow> 3)"

definition reps_left :: "keithley \<Rightarrow> nat" where
  "reps_left s =
     (case gpib_thread s of
        Some (ForHead k) \<Rightarrow> (if int k < repetitions s then Suc (nat (repetitions s) - k) else 0)
      | Some (PointHead k dp) \<Rightarrow> Suc (nat (repetitions s) - k)
      | Some (RepEnd k) \<Rightarrow> Suc (nat (repetitions s) - k)
      | _ \<Rightarrow> 0)"

definition stage :: "keithley \<Rightarrow> nat" where
  "stage s = (case gpib_thread s of Some (ForHead k) \<Rightarrow> 2 | Some (PointHead k dp) \<Rightarrow> 1 | _ \<Rightarrow> 0)"

definition points_left :: "keithley \<Rightarrow> nat" where
  "points_left s =
     (case gpib_thread s of Some (PointHead k dp) \<Rightarrow> nat (n_data_points s) - dp | _ \<Rightarrow> 0)"

text \<open>
  The arrays have the length \<open>n\<close> of the constructor's \<^verbatim>\<open>n_data_points\<close>, and no array
  access of the thread has raised \<^verbatim>\<open>IndexError\<close>.
\<close>

definition within_bounds :: "int \<Rightarrow> keithley \<Rightarrow> bool" where
  "within_bounds n s =
     (buffers_sized s \<and> n_data_points s = n \<and> gpib_thread s \<noteq> Some (Crashed IndexError))"

text \<open>The thread is inside the body of \<^verbatim>\<open>while self.is_run\<close> (lines 86-111).\<close>

definition in_sweep :: "keithley \<Rightarrow> bool" where
  "in_sweep s =
     (case gpib_thread s of
        Some (ForHead k) \<Rightarrow> True
      | Some (PointHead k dp) \<Rightarrow> True
      | Some (RepEnd k) \<Rightarrow> True
      | Some WhileEnd \<Rightarrow> True
      | _ \<Rightarrow> False)"

text \<open>
  The thread is inside the body of the \<^verbatim>\<open>while\<close> loop, or has ended, or is at the test
  of the loop with \<^verbatim>\<open>is_run\<close> cleared.
\<close>

definition past_test :: "keithley \<Rightarrow> bool" where
  "past_test s = (in_sweep s \<or> \<not> thread_alive s \<or> (gpib_thread s = Some WhileHead \<and> \<not> is_run s))"

text \<open>A statement does the same whether or not \<^verbatim>\<open>is_run\<close> has been cleared (line 114).\<close>

definition ignores_stop :: "'a stmt \<Rightarrow> bool" where
  "ignores_stop m = (\<forall>s. m (s\<lparr>is_run := False\<rparr>) = (fst (m s), (snd (m s))\<lparr>is_run := False\<rparr>))"




text \<open>
  How often the instrument has been shut down, and how often the log line of line 119
  has been emitted.
\<close>

definition shutdowns :: "keithley \<Rightarrow> nat" where
  "shutdowns s = count_list (commands s) Shutdown"

definition disconnects :: "keithley \<Rightarrow> nat" where
  "disconnects s = count_list (signals s) (ToLog (log_line ''000000'' ''Disconnected Keithley...''))"

subsection \<open>Example controllers and environments\<close>

text \<open>
  \<open>quiet\<close>: the instrument opens, no call fails, the query asked at tick \<open>n\<close> returns
  \<open>n\<close>. \<open>unreachable\<close>: every attempt to open the instrument raises \<^verbatim>\<open>VisaIOError\<close>.
  \<open>open_circuit\<close>: as \<open>quiet\<close>, but the instrument reports one volt and no current (the
  mean current is the query asked at the ticks \<open>13, 21, ...\<close>).
\<close>

definition quiet :: env where
  "quiet = \<lparr>opens = (\<lambda>_. Opened), fails = (\<lambda>_. False), reads = (\<lambda>n. Fin (real n)),
     clock = (\<lambda>n. real n)\<rparr>"

definition unreachable :: env where
  "unreachable = \<lparr>opens = (\<lambda>_. RaisesVisaIOError), fails = (\<lambda>_. False), reads = (\<lambda>n. Fin 0),
     clock = (\<lambda>n. real n)\<rparr>"

definition open_circuit :: env where
  "open_circuit = \<lparr>opens = (\<lambda>_. Opened), fails = (\<lambda>_. False),
     reads = (\<lambda>n. if n mod 8 = 5 then Fin 0 else Fin 1), clock = (\<lambda>n. real n)\<rparr>"

text \<open>
  \<open>simulation\<close>: five points from 0 to 1, two repetitions, no instrument (the port is
  \<^verbatim>\<open>'dummy'\<close>). \<open>bench\<close>: two points, two repetitions, on the port \<^verbatim>\<open>'GPIB::24'\<close>.
  \<open>single\<close>: one point, one repetition, on the same port. \<open>simulation1\<close>: as
  \<open>simulation\<close>, with one repetition.
\<close>

definition simulation1 :: keithley where
  "simulation1 = projr (init ''dummy'' 5 5 1 2 (1/4) 0 1 (1/2))"

definition simulation :: keithley where
  "simulation = projr (init ''dummy'' 5 5 2 2 (1/4) 0 1 (1/2))"

definition bench :: keithley where
  "bench = projr (init ''GPIB::24'' 2 5 2 2 (1/4) 0 1 (1/2))"

definition single :: keithley where
  "single = projr (init ''GPIB::24'' 1 5 1 2 (1/4) 0 1 (1/2))"

text \<open>
  \<open>first_point e\<close>: \<open>bench\<close> when \<^verbatim>\<open>read_keithley_start\<close> has returned in the environment
  \<open>e\<close>: the first point is recorded and the thread is at the top of the second pass of
  the \<^verbatim>\<open>for dp\<close> loop.
\<close>

definition first_point :: "env \<Rightarrow> keithley" where
  "first_point e = the (read_keithley_start e bench)"

definition all_options :: kwargs where
  "all_options = \<lparr>kw_compliance_current = Some 1, kw_averages = Some 3,
     kw_other = [(''n_data_points'', 7), (''min_voltage'', 2), (''max_voltage'', 5)]\<rparr>"

section \<open>The thread always ends\<close>

lemma keeps_andthen: "keeps g m \<Longrightarrow> (\<And>x. keeps g (f x)) \<Longrightarrow> keeps g (andthen m f)"
  by (auto simp: keeps_def andthen_def split: prod.splits sum.splits) (metis snd_conv)+

lemma keepsD: "keeps g m \<Longrightarrow> m s = (r, s') \<Longrightarrow> g s' = g s"
  by (metis keeps_def snd_conv)

lemmas stmt_defs = instr_def query_def now_def load_def store_def emits_def emit_def

lemma keeps_measure_point:
  "keeps repetitions (measure_point e dp)" "keeps n_data_points (measure_point e dp)"
  "keeps is_run (measure_point e dp)" "keeps gpib_port (measure_point e dp)"
  unfolding measure_point_def
  by (intro keeps_andthen; simp add: keeps_def stmt_defs Let_def)+

lemma keeps_setup_instrument:
  "keeps repetitions (setup_instrument e kw)" "keeps n_data_points (setup_instrument e kw)"
  "keeps is_run (setup_instrument e kw)"
  unfolding setup_instrument_def
  by (intro keeps_andthen; simp add: keeps_def stmt_defs Let_def)+

lemma keeps_config_keithley:
  "keeps repetitions (config_keithley e kw)" "keeps n_data_points (config_keithley e kw)"
  "keeps is_run (config_keithley e kw)"
  using keeps_setup_instrument [of e kw]
  unfolding keeps_def config_keithley_def Let_def
  by (simp_all add: emit_def split: connection.splits)

lemmas measure_point_keeps = keeps_measure_point [THEN keepsD]
lemmas config_keithley_keeps = keeps_config_keithley [THEN keepsD]

lemma step_decreases:
  assumes "thread_alive s"
  shows "((phase (background_thread_step e s), reps_left (background_thread_step e s),
           stage (background_thread_step e s), points_left (background_thread_step e s)),
          (phase s, reps_left s, stage s, points_left s))
         \<in> less_than <*lex*> less_than <*lex*> less_than <*lex*> less_than"
proof (cases "gpib_thread s")
  case None
  with assms show ?thesis by (simp add: thread_alive_def)
next
  case (Some p)
  with assms show ?thesis
    by (cases p)
       (auto simp: thread_alive_def background_thread_step_def run_stmt_def goto_def
          phase_def reps_left_def stage_def points_left_def emit_def Let_def instr_def
          measure_point_keeps config_keithley_keeps
          split: prod.splits sum.splits)
qed

termination join
  by (relation "inv_image (less_than <*lex*> less_than <*lex*> less_than <*lex*> less_than)
        (\<lambda>(e, s). (phase s, reps_left s, stage s, points_left s))")
     (blast, simp add: step_decreases del: in_lex_prod)

declare join.simps [simp del]

lemma join_alive: "thread_alive s \<Longrightarrow> join e s = join e (background_thread_step e s)"
  by (subst join.simps) simp

lemma join_ended: "\<not> thread_alive s \<Longrightarrow> join e s = s"
  by (subst join.simps) simp

section \<open>Invariants of the thread and of its callers\<close>

text \<open>What every step of the thread preserves holds when \<^verbatim>\<open>join\<close> returns.\<close>

lemma join_invariant_aux:
  "(\<forall>s. I s \<longrightarrow> I (background_thread_step e s)) \<Longrightarrow> I s \<Longrightarrow> I (join e s)"
proof (induction e s rule: join.induct)
  case (1 e s)
  show ?case
  proof (cases "thread_alive s")
    case True
    from 1(2,3) have "I (background_thread_step e s)" by simp
    with 1(1) [OF True 1(2)] have "I (join e (background_thread_step e s))" .
    then show ?thesis using True by (simp add: join_alive)
  next
    case False
    then show ?thesis using 1 by (simp add: join_ended)
  qed
qed

lemma join_invariant:
  assumes "\<And>s. I s \<Longrightarrow> I (background_thread_step e s)" and "I s"
  shows "I (join e s)"
  using join_invariant_aux [of I e s] assms by blast

lemma join_not_alive: "\<not> thread_alive (join e s)"
proof (induction e s rule: join.induct)
  case (1 e s)
  then show ?case by (cases "thread_alive s") (simp_all add: join_alive join_ended)
qed

lemmas wait_receiving_induct = wait_receiving.raw_induct [rotated 1, consumes 1, case_names step]

lemma wait_receiving_invariant_aux:
  "wait_receiving e s = Some s' \<Longrightarrow> (\<forall>s. I s \<longrightarrow> I (background_thread_step e s)) \<longrightarrow> I s \<longrightarrow> I s'"
proof (induction rule: wait_receiving_induct)
  case (step wait e s s')
  show ?case
  proof (cases "is_receiving s")
    case True
    with step show ?thesis by simp
  next
    case False
    with step have w: "wait e (background_thread_step e s) = Some s'" by simp
    from step(1) [OF w] show ?thesis by fast
  qed
qed

lemma wait_receiving_invariant:
  assumes "\<And>s. I s \<Longrightarrow> I (background_thread_step e s)"
    and "wait_receiving e s = Some s'" and "I s"
  shows "I s'"
  using wait_receiving_invariant_aux [OF assms(2), of I] assms(1,3) by blast

text \<open>A statement keeps whatever does not depend on the fields it writes.\<close>

lemma keeps_instr_gen:
  assumes "\<And>f s. g (commands_update f s) = g s" "\<And>f s. g (tick_update f s) = g s"
  shows "keeps g (instr e c)" "keeps g (query e c)"
  using assms by (simp_all add: keeps_def instr_def query_def Let_def)

lemma keeps_setup_instrument_gen:
  assumes "\<And>f s. g (commands_update f s) = g s" "\<And>f s. g (tick_update f s) = g s"
    "\<And>f s. g (averages_update f s) = g s"
  shows "keeps g (setup_instrument e kw)"
  unfolding setup_instrument_def
  by (intro keeps_andthen; simp add: keeps_def instr_def Let_def assms)

lemma keeps_config_keithley_gen:
  assumes "\<And>f s. g (commands_update f s) = g s" "\<And>f s. g (tick_update f s) = g s"
    "\<And>f s. g (averages_update f s) = g s" "\<And>f s. g (signals_update f s) = g s"
    "\<And>f s. g (gpib_port_update f s) = g s" "\<And>f s. g (sourcemeter_update f s) = g s"
  shows "keeps g (config_keithley e kw)"
  using keeps_setup_instrument_gen [of g e kw, OF assms(1-3)]
  unfolding keeps_def config_keithley_def Let_def
  by (simp add: emit_def assms split: connection.splits)

lemma keeps_buffers_sized_config: "keeps buffers_sized (config_keithley e kw)"
  by (rule keeps_config_keithley_gen) (simp_all add: buffers_sized_def)

text \<open>Once the port is \<^verbatim>\<open>'dummy'\<close> it stays so: no method assigns another port.\<close>

lemma config_keithley_dummy:
  "gpib_port s = ''dummy'' \<Longrightarrow>
   config_keithley e kw s = (Inr (), emit (ToLog (log_line ''000000'' ''Trying to connect to: dummy.'')) s)"
  by (simp add: config_keithley_def emit_def Let_def)

lemma step_dummy:
  assumes "gpib_port s = ''dummy''"
  shows "gpib_port (background_thread_step e s) = ''dummy''"
proof (cases "gpib_thread s")
  case None
  with assms show ?thesis by (simp add: background_thread_step_def)
next
  case (Some p)
  with assms show ?thesis
    by (cases p)
       (auto simp: background_thread_step_def run_stmt_def goto_def emit_def Let_def instr_def
          measure_point_keeps config_keithley_dummy split: prod.splits sum.splits)
qed

lemma perform_dummy:
  assumes "gpib_port s = ''dummy''" and "perform e a s = Some s'"
  shows "gpib_port s' = ''dummy''"
proof (cases a)
  case ThreadStep
  with assms show ?thesis by (auto simp: step_dummy)
next
  case (CallConfig kw)
  with assms show ?thesis by (auto simp: config_keithley_dummy emit_def)
next
  case CallStart
  have "gpib_port s' = ''dummy''" if "wait_receiving e s0 = Some s'" and "gpib_port s0 = ''dummy''" for s0
    using wait_receiving_invariant [where I = "\<lambda>s. gpib_port s = ''dummy''", OF _ that] step_dummy
    by blast
  with CallStart assms show ?thesis
    by (auto simp: read_keithley_start_def start_thread_def Let_def split: if_splits)
next
  case CallClose
  have "gpib_port (join e s0) = ''dummy''" if "gpib_port s0 = ''dummy''" for s0
    using join_invariant [where I = "\<lambda>s. gpib_port s = ''dummy''", OF _ that] step_dummy
    by blast
  with CallClose assms show ?thesis
    by (auto simp: close_def Let_def)
qed

lemma run_dummy:
  "gpib_port s = ''dummy'' \<Longrightarrow> run e acts s = Some s' \<Longrightarrow> gpib_port s' = ''dummy''"
proof (induction acts arbitrary: s)
  case Nil
  then show ?case by simp
next
  case (Cons a acts)
  then show ?case by (auto split: option.splits dest: perform_dummy)
qed

section \<open>The sweep plan\<close>

lemma linspace_length: "linspace a b n = Inr ys \<Longrightarrow> length ys = nat n"
  by (auto simp: linspace_def Let_def split: if_splits)

lemma linspace_nth:
  assumes "linspace a b n = Inr ys" and "i < nat n"
  shows "ys ! i = a + real i * ((b - a) / real_of_int (n - 1))"
proof (cases "n > 1")
  case True
  have last: "a + real (nat n - 1) * ((b - a) / real_of_int (n - 1)) = b"
    using True by (simp add: of_nat_diff)
  show ?thesis
  proof (cases "i = nat n - 1")
    case True
    with assms \<open>n > 1\<close> last show ?thesis
      by (auto simp: linspace_def Let_def split: if_splits)
  next
    case False
    with assms \<open>n > 1\<close> show ?thesis
      by (auto simp: linspace_def Let_def split: if_splits)
  qed
next
  case False
  with assms have "n = 1" "i = 0" by auto
  with assms show ?thesis by (auto simp: linspace_def Let_def)
qed

text \<open>
  Claim C7, as amended. For \<^verbatim>\<open>n_data_points = n\<close> the constructor builds a plan
  \<^verbatim>\<open>voltages_set\<close> of exactly \<open>n\<close> entries, entry \<open>i\<close> being
  \<open>min_voltage + i * (max_voltage - min_voltage) / (n - 1)\<close>: linearly spaced. For
  \<open>n \<ge> 1\<close> the first entry is \<^verbatim>\<open>min_voltage\<close>; the last entry is \<^verbatim>\<open>max_voltage\<close> for
  \<open>n \<ge> 2\<close> only, and for \<open>n = 1\<close> the plan is the single entry \<^verbatim>\<open>min_voltage\<close>.
\<close>

theorem sweep_plan_linear:
  assumes "init port n avg reps rd d lo hi c = Inr s"
  shows "length (voltages_set s) = nat n \<and>
         (\<forall>i < nat n. voltages_set s ! i = lo + real i * ((hi - lo) / real_of_int (n - 1))) \<and>
         (1 \<le> n \<longrightarrow> voltages_set s ! 0 = lo) \<and>
         (2 \<le> n \<longrightarrow> last (voltages_set s) = hi) \<and>
         (n = 1 \<longrightarrow> voltages_set s = [lo])"
proof -
  from assms obtain vs where vs: "linspace lo hi n = Inr vs" and s: "voltages_set s = vs"
    by (auto simp: init_def split: sum.splits)
  have len: "length vs = nat n" using vs by (rule linspace_length)
  have nth: "\<And>i. i < nat n \<Longrightarrow> vs ! i = lo + real i * ((hi - lo) / real_of_int (n - 1))"
    using vs by (rule linspace_nth)
  have first: "1 \<le> n \<Longrightarrow> vs ! 0 = lo" using nth [of 0] by simp
  have lst: "last vs = hi" if "2 \<le> n"
  proof -
    from that len have "vs \<noteq> []" by auto
    then have "last vs = vs ! (nat n - 1)" using len by (simp add: last_conv_nth)
    also have "\<dots> = lo + real (nat n - 1) * ((hi - lo) / real_of_int (n - 1))"
      using that by (intro nth) auto
    also have "\<dots> = hi" using that by (simp add: of_nat_diff)
    finally show ?thesis .
  qed
  have one: "vs = [lo]" if "n = 1"
  proof -
    from that len have "length vs = 1" by simp
    then obtain x where "vs = [x]" by (cases vs) auto
    with first that show ?thesis by simp
  qed
  from len nth first lst one s show ?thesis by simp
qed

theorem sweep_plan_linear_witness:
  "init ''dummy'' 5 5 2 2 (1/4) 0 1 (1/2) = Inr simulation \<and>
   length (voltages_set simulation) = 5 \<and> voltages_set simulation ! 0 = 0 \<and>
   last (voltages_set simulation) = 1 \<and> voltages_set simulation = [0, 1/4, 1/2, 3/4, 1]"
proof -
  have h: "init ''dummy'' 5 5 2 2 (1/4) 0 1 (1/2) = Inr simulation" by code_simp
  have vs: "voltages_set simulation = [0, 1/4, 1/2, 3/4, 1]" by code_simp
  from sweep_plan_linear [OF h] vs h show ?thesis by simp
qed

text \<open>
  Claim C7 as stated fails for one point: with \<^verbatim>\<open>n_data_points = 1\<close>, \<^verbatim>\<open>min_voltage = 0\<close>
  and \<^verbatim>\<open>max_voltage = 1\<close> the plan is \<open>[0]\<close>, whose last entry is not \<^verbatim>\<open>max_voltage\<close>.
\<close>

theorem single_point_plan_counterexample:
  "init ''GPIB::24'' 1 5 1 2 (1/4) 0 1 (1/2) = Inr single \<and> 1 \<le> n_data_points single \<and>
   min_voltage single = 0 \<and> max_voltage single = 1 \<and> voltages_set single = [0] \<and>
   last (voltages_set single) \<noteq> max_voltage single"
  by code_simp

section \<open>\<^verbatim>\<open>config_keithley\<close>\<close>




text \<open>
  Claim C5. When opening the instrument raises \<^verbatim>\<open>VisaIOError\<close>, \<^verbatim>\<open>config_keithley\<close>
  returns without raising, the port is \<^verbatim>\<open>'dummy'\<close> afterwards, the red log line
  \<^verbatim>\<open>Failed to connect with ...\<close> has been emitted after the line \<^verbatim>\<open>Trying to connect to: ...\<close>,
  and the port stays \<^verbatim>\<open>'dummy'\<close> whatever the thread and the callers do afterwards, in any
  environment.
\<close>

theorem connection_failure_falls_back:
  assumes "gpib_port s \<noteq> ''dummy''" and "opens e (tick s) = RaisesVisaIOError"
  shows "fst (config_keithley e kw s) = Inr () \<and>
         gpib_port (snd (config_keithley e kw s)) = ''dummy'' \<and>
         signals (snd (config_keithley e kw s)) =
           signals s @ [ToLog (log_line ''000000'' (''Trying to connect to: '' @ gpib_port s @ ''.'')),
                        ToLog (log_line ''ff0000'' (''Failed to connect with '' @ gpib_port s @ ''.''))] \<and>
         (\<forall>e' acts s'. run e' acts (snd (config_keithley e kw s)) = Some s' \<longrightarrow> gpib_port s' = ''dummy'')"
proof -
  let ?s' = "snd (config_keithley e kw s)"
  from assms have 1: "fst (config_keithley e kw s) = Inr ()" and 2: "gpib_port ?s' = ''dummy''"
    and 3: "signals ?s' =
           signals s @ [ToLog (log_line ''000000'' (''Trying to connect to: '' @ gpib_port s @ ''.'')),
                        ToLog (log_line ''ff0000'' (''Failed to connect with '' @ gpib_port s @ ''.''))]"
    by (simp_all add: config_keithley_def emit_def Let_def)
  from 2 have "\<forall>e' acts s'. run e' acts ?s' = Some s' \<longrightarrow> gpib_port s' = ''dummy''"
    using run_dummy by blast
  with 1 2 3 show ?thesis by simp
qed

theorem connection_failure_falls_back_witness:
  "gpib_port bench \<noteq> ''dummy'' \<and> opens unreachable (tick bench) = RaisesVisaIOError \<and>
   fst (config_keithley unreachable no_kwargs bench) = Inr () \<and>
   gpib_port (snd (config_keithley unreachable no_kwargs bench)) = ''dummy'' \<and>
   map_option gpib_port
     (run unreachable [CallStart, CallClose] (snd (config_keithley unreachable no_kwargs bench))) = Some ''dummy''"
proof -
  have h1: "gpib_port bench \<noteq> ''dummy''" by code_simp
  have h2: "opens unreachable (tick bench) = RaisesVisaIOError" by code_simp
  have r: "run unreachable [CallStart, CallClose] (snd (config_keithley unreachable no_kwargs bench)) \<noteq> None"
    by code_simp
  from r obtain y
    where y: "run unreachable [CallStart, CallClose] (snd (config_keithley unreachable no_kwargs bench)) = Some y"
    by blast
  note c = connection_failure_falls_back [OF h1 h2, of no_kwargs]
  from c y have "gpib_port y = ''dummy''" by blast
  with c y h1 h2 show ?thesis by simp
qed

section \<open>One pass of the \<^verbatim>\<open>for dp\<close> loop\<close>

text \<open>
  What lines 91-103 have done when they end without an exception, when they do so, and
  which exceptions they cannot raise while \<open>dp\<close> is within the arrays. The questions put
  to the outside world in one pass are, from the tick \<open>t\<close> at its start: the four calls
  of lines 91-95 (\<open>t\<close> to \<open>t + 3\<close>), \<^verbatim>\<open>time.time()\<close> (\<open>t + 4\<close>), \<^verbatim>\<open>mean_voltage\<close>
  (\<open>t + 5\<close>), \<^verbatim>\<open>mean_current\<close> (\<open>t + 6\<close>) and \<^verbatim>\<open>std_current\<close> (\<open>t + 7\<close>).
\<close>

lemma measure_point_Inr:
  assumes "measure_point e dp s = (Inr u, s')"
  shows "s' = s\<lparr>times := (times s)[dp := Fin (clock e (tick s + 4))],
                 voltages := (voltages s)[dp := reads e (tick s + 5)],
                 currents := (currents s)[dp := np_neg (reads e (tick s + 6))],
                 currents_std := (currents_std s)[dp := reads e (tick s + 7)],
                 resistances := (resistances s)
                   [dp := np_abs (np_div (reads e (tick s + 5)) (np_neg (reads e (tick s + 6))))],
                 powers := (powers s)
                   [dp := np_abs (np_mul (reads e (tick s + 5)) (np_neg (reads e (tick s + 6))))],
                 is_receiving := True,
                 signals := signals s @ [Update (int dp)],
                 commands := commands s @
                   [AdapterWrite '':TRAC:FEED:CONT NEXT;'', SetSourceVoltage (voltages_set s ! dp),
                    StartBuffer, WaitForBuffer, GetMeanVoltage, GetMeanCurrent, GetStdCurrent],
                 tick := tick s + 8\<rparr>"
    and "dp < length (voltages_set s)" and "dp < length (times s)" and "dp < length (voltages s)"
    and "dp < length (currents s)" and "dp < length (currents_std s)"
    and "dp < length (resistances s)" and "dp < length (powers s)"
  using assms
  by (auto simp: measure_point_def andthen_def stmt_defs Let_def eval_nat_numeral
        split: if_splits prod.splits sum.splits)

lemma measure_point_succeeds:
  assumes "sourcemeter s \<noteq> None" and "\<forall>i<8. \<not> fails e (tick s + i)"
    and "dp < length (voltages_set s)" and "dp < length (times s)" and "dp < length (voltages s)"
    and "dp < length (currents s)" and "dp < length (currents_std s)"
    and "dp < length (resistances s)" and "dp < length (powers s)"
  shows "fst (measure_point e dp s) = Inr ()"
proof -
  have f: "\<not> fails e (tick s + i)" if "i < 8" for i using assms(2) that by blast
  from f [of 0] f [of 1] f [of 2] f [of 3] f [of 5] f [of 6] f [of 7]
  have "\<not> fails e (tick s)" "\<not> fails e (Suc (tick s))" "\<not> fails e (Suc (Suc (tick s)))"
    "\<not> fails e (Suc (Suc (Suc (tick s))))" "\<not> fails e (Suc (Suc (Suc (Suc (Suc (tick s))))))"
    "\<not> fails e (Suc (Suc (Suc (Suc (Suc (Suc (tick s)))))))"
    "\<not> fails e (Suc (Suc (Suc (Suc (Suc (Suc (Suc (tick s))))))))"
    by (simp_all add: eval_nat_numeral)
  with assms(1,3-) show ?thesis
    by (simp add: measure_point_def andthen_def stmt_defs Let_def)
qed

lemma measure_point_Inl:
  assumes "measure_point e dp s = (Inl err, s')"
    and "dp < length (voltages_set s)" and "dp < length (times s)" and "dp < length (voltages s)"
    and "dp < length (currents s)" and "dp < length (currents_std s)"
    and "dp < length (resistances s)" and "dp < length (powers s)"
  shows "err \<noteq> IndexError"
  using assms
  by (auto simp: measure_point_def andthen_def stmt_defs Let_def
        split: if_splits prod.splits sum.splits)

lemma np_neg_times: "np_neg x = np_mul (Fin (- 1)) x"
  by (cases x) (simp_all add: np_mul_def fin_of_def zero_of_def inf_of_def)

lemma resistance_zero_response:
  "is_zero c \<Longrightarrow> np_abs (np_div v (np_neg c)) = (if v = NaN \<or> is_zero v then NaN else PInf)"
  by (cases c; cases v) (auto simp: np_div_def inf_of_def zero_of_def fin_of_def)

lemma power_zero_response:
  "is_zero c \<Longrightarrow> np_abs (np_mul v (np_neg c)) = (if v = NaN \<or> is_inf v then NaN else Fin 0)"
  by (cases c; cases v) (auto simp: np_mul_def inf_of_def zero_of_def fin_of_def)

lemma point_step_recorded:
  assumes "gpib_thread s = Some (PointHead k dp)"
    and "gpib_thread (background_thread_step e s) = Some (PointHead k (Suc dp))"
  shows "measure_point e dp s = (Inr (), snd (measure_point e dp s))"
    and "background_thread_step e s = goto (PointHead k (Suc dp)) (snd (measure_point e dp s))"
  using assms
  by (auto simp: background_thread_step_def run_stmt_def goto_def instr_def Let_def
        split: if_splits prod.splits sum.splits)

text \<open>
  Claim C8. When a pass of the \<^verbatim>\<open>for dp\<close> loop of a sweep on an instrument has recorded
  the point \<open>dp\<close> (the thread has gone from the top of pass \<open>dp\<close> to the top of pass
  \<open>dp + 1\<close>), the stored \<^verbatim>\<open>currents[dp]\<close> is \<open>-1\<close> times the mean current the instrument
  reported in that pass, \<^verbatim>\<open>resistances[dp]\<close> is \<^verbatim>\<open>abs(voltages[dp] / currents[dp])\<close> and
  \<^verbatim>\<open>powers[dp]\<close> is \<^verbatim>\<open>abs(voltages[dp] * currents[dp])\<close>, \<^verbatim>\<open>voltages[dp]\<close> being the mean
  voltage the instrument reported. The pass leaves the values stored at every other
  index as they were, so what an earlier pass has recorded still holds.
\<close>

theorem recorded_point_relations:
  assumes "gpib_thread s = Some (PointHead k dp)"
    and "gpib_thread (background_thread_step e s) = Some (PointHead k (Suc dp))"
  shows "currents (background_thread_step e s) ! dp = np_mul (Fin (- 1)) (reads e (tick s + 6)) \<and>
         resistances (background_thread_step e s) ! dp =
           np_abs (np_div (voltages (background_thread_step e s) ! dp)
                          (currents (background_thread_step e s) ! dp)) \<and>
         powers (background_thread_step e s) ! dp =
           np_abs (np_mul (voltages (background_thread_step e s) ! dp)
                          (currents (background_thread_step e s) ! dp)) \<and>
         voltages (background_thread_step e s) ! dp = reads e (tick s + 5) \<and>
         commands (background_thread_step e s) =
           commands s @ [AdapterWrite '':TRAC:FEED:CONT NEXT;'', SetSourceVoltage (voltages_set s ! dp),
                         StartBuffer, WaitForBuffer, GetMeanVoltage, GetMeanCurrent, GetStdCurrent] \<and>
         tick (background_thread_step e s) = tick s + 8 \<and>
         (\<forall>i. i \<noteq> dp \<longrightarrow>
            voltages (background_thread_step e s) ! i = voltages s ! i \<and>
            currents (background_thread_step e s) ! i = currents s ! i \<and>
            resistances (background_thread_step e s) ! i = resistances s ! i \<and>
            powers (background_thread_step e s) ! i = powers s ! i)"
proof -
  note m = measure_point_Inr [OF point_step_recorded(1) [OF assms]]
  have st: "background_thread_step e s = goto (PointHead k (Suc dp)) (snd (measure_point e dp s))"
    using assms by (rule point_step_recorded(2))
  show ?thesis
    unfolding st goto_def
    by (subst m(1))+ (use m(2-) in \<open>simp add: np_neg_times\<close>)
qed

theorem recorded_point_relations_witness:
  "gpib_thread (first_point quiet) = Some (PointHead 0 1) \<and>
   gpib_thread (background_thread_step quiet (first_point quiet)) = Some (PointHead 0 2) \<and>
   voltages (background_thread_step quiet (first_point quiet)) ! 1 = Fin 20 \<and>
   currents (background_thread_step quiet (first_point quiet)) ! 1 = Fin (- 21) \<and>
   resistances (background_thread_step quiet (first_point quiet)) ! 1 =
     np_abs (np_div (Fin 20) (Fin (- 21))) \<and>
   powers (background_thread_step quiet (first_point quiet)) ! 1 =
     np_abs (np_mul (Fin 20) (Fin (- 21)))"
proof -
  have h1: "gpib_thread (first_point quiet) = Some (PointHead 0 1)" by code_simp
  have h2: "gpib_thread (background_thread_step quiet (first_point quiet)) = Some (PointHead 0 (Suc 1))"
    by code_simp
  have v: "voltages (background_thread_step quiet (first_point quiet)) ! 1 = Fin 20"
    and c: "currents (background_thread_step quiet (first_point quiet)) ! 1 = Fin (- 21)"
    by code_simp+
  from recorded_point_relations [OF h1 h2] h1 h2 v c show ?thesis by simp
qed

text \<open>
  Claim C9. When the instrument reports a mean current of zero at the point \<open>dp\<close> (and
  no instrument call of the pass fails), the pass raises nothing and the thread goes on
  to the top of the next pass: \<^verbatim>\<open>resistances[dp]\<close> is recorded as \<open>+inf\<close>, or as
  not-a-number when the measured voltage is zero or not-a-number; \<^verbatim>\<open>powers[dp]\<close> is
  recorded as zero, or as not-a-number when the measured voltage is infinite or
  not-a-number; and the \<^verbatim>\<open>update\<close> signal of the point is emitted.
\<close>

theorem zero_response_recorded:
  assumes "gpib_thread s = Some (PointHead k dp)" and "int dp < n_data_points s"
    and "buffers_sized s" and "sourcemeter s \<noteq> None" and "\<forall>i<8. \<not> fails e (tick s + i)"
    and "is_zero (reads e (tick s + 6))"
  shows "gpib_thread (background_thread_step e s) = Some (PointHead k (Suc dp)) \<and>
         resistances (background_thread_step e s) ! dp =
           (if reads e (tick s + 5) = NaN \<or> is_zero (reads e (tick s + 5)) then NaN else PInf) \<and>
         powers (background_thread_step e s) ! dp =
           (if reads e (tick s + 5) = NaN \<or> is_inf (reads e (tick s + 5)) then NaN else Fin 0) \<and>
         signals (background_thread_step e s) = signals s @ [Update (int dp)]"
proof -
  from assms(2,3) have len: "dp < length (voltages_set s)" "dp < length (times s)"
    "dp < length (voltages s)" "dp < length (currents s)" "dp < length (currents_std s)"
    "dp < length (resistances s)" "dp < length (powers s)"
    by (simp_all add: buffers_sized_def)
  have ok: "fst (measure_point e dp s) = Inr ()"
    using assms(4,5) len by (rule measure_point_succeeds)
  then have eq: "measure_point e dp s = (Inr (), snd (measure_point e dp s))"
    by (metis prod.collapse)
  note m = measure_point_Inr [OF eq]
  have st: "background_thread_step e s = goto (PointHead k (Suc dp)) (snd (measure_point e dp s))"
    using assms(1,2) ok
    by (auto simp: background_thread_step_def run_stmt_def split: prod.splits sum.splits)
  show ?thesis
    unfolding st goto_def
    by (subst m(1))+
       (use m(2-) assms(6) in \<open>simp add: resistance_zero_response power_zero_response\<close>)
qed

theorem zero_response_recorded_witness:
  "gpib_thread (first_point open_circuit) = Some (PointHead 0 1) \<and>
   int 1 < n_data_points (first_point open_circuit) \<and>
   buffers_sized (first_point open_circuit) \<and>
   sourcemeter (first_point open_circuit) \<noteq> None \<and>
   reads open_circuit (tick (first_point open_circuit) + 5) = Fin 1 \<and>
   is_zero (reads open_circuit (tick (first_point open_circuit) + 6)) \<and>
   gpib_thread (background_thread_step open_circuit (first_point open_circuit)) = Some (PointHead 0 2) \<and>
   resistances (background_thread_step open_circuit (first_point open_circuit)) ! 1 = PInf \<and>
   powers (background_thread_step open_circuit (first_point open_circuit)) ! 1 = Fin 0"
proof -
  have h1: "gpib_thread (first_point open_circuit) = Some (PointHead 0 1)" by code_simp
  have h2: "int 1 < n_data_points (first_point open_circuit)" by code_simp
  have h3: "buffers_sized (first_point open_circuit)" by code_simp
  have h4: "sourcemeter (first_point open_circuit) \<noteq> None" by code_simp
  have h5: "\<forall>i<8. \<not> fails open_circuit (tick (first_point open_circuit) + i)"
    by (simp add: open_circuit_def)
  have v: "reads open_circuit (tick (first_point open_circuit) + 5) = Fin 1" by code_simp
  have h6: "is_zero (reads open_circuit (tick (first_point open_circuit) + 6))" by code_simp
  from zero_response_recorded [OF h1 h2 h3 h4 h5 h6] h1 h2 h3 h4 h6 v show ?thesis by simp
qed

section \<open>The size of the arrays\<close>

lemma keeps_buffers_sized_measure_point: "keeps buffers_sized (measure_point e dp)"
  unfolding measure_point_def
  by (intro keeps_andthen; simp add: keeps_def stmt_defs Let_def buffers_sized_def)

lemma keeps_gpib_thread_config: "keeps gpib_thread (config_keithley e kw)"
  by (rule keeps_config_keithley_gen) simp_all

lemma config_keithley_not_IndexError: "fst (config_keithley e kw s) \<noteq> Inl IndexError"
  by (auto simp: config_keithley_def setup_instrument_def andthen_def instr_def Let_def
        split: connection.splits prod.splits sum.splits if_splits)

lemma step_within_bounds:
  assumes "within_bounds n s"
  shows "within_bounds n (background_thread_step e s)"
proof (cases "gpib_thread s")
  case None
  with assms show ?thesis by (simp add: background_thread_step_def)
next
  case (Some p)
  show ?thesis
  proof (cases p)
    case Setup
    obtain r s' where c: "config_keithley e no_kwargs s = (r, s')" by (cases "config_keithley e no_kwargs s")
    from c have "r \<noteq> Inl IndexError" using config_keithley_not_IndexError [of e no_kwargs s] by simp
    moreover from c assms have "buffers_sized s'" "n_data_points s' = n"
      using keepsD [OF keeps_buffers_sized_config c] config_keithley_keeps(2) [OF c]
      by (simp_all add: within_bounds_def)
    ultimately show ?thesis using Some Setup c
      by (auto simp: background_thread_step_def run_stmt_def goto_def within_bounds_def buffers_sized_def
            split: sum.splits)
  next
    case (PointHead k dp)
    show ?thesis
    proof (cases "int dp < n_data_points s")
      case True
      obtain r s' where m: "measure_point e dp s = (r, s')" by (cases "measure_point e dp s")
      from assms True have len: "dp < length (voltages_set s)" "dp < length (times s)"
        "dp < length (voltages s)" "dp < length (currents s)" "dp < length (currents_std s)"
        "dp < length (resistances s)" "dp < length (powers s)"
        by (simp_all add: within_bounds_def buffers_sized_def)
      have "r \<noteq> Inl IndexError" using measure_point_Inl [of e dp s _ s', OF _ len] m by blast
      moreover from m assms have "buffers_sized s'" "n_data_points s' = n"
        using keepsD [OF keeps_buffers_sized_measure_point m] measure_point_keeps(2) [OF m]
        by (simp_all add: within_bounds_def)
      ultimately show ?thesis using Some PointHead True m
        by (auto simp: background_thread_step_def run_stmt_def goto_def within_bounds_def buffers_sized_def
              split: sum.splits)
    next
      case False
      with assms Some PointHead show ?thesis
        by (auto simp: background_thread_step_def run_stmt_def goto_def within_bounds_def
              buffers_sized_def instr_def Let_def split: sum.splits)
    qed
  qed (use assms Some in \<open>auto simp: background_thread_step_def goto_def within_bounds_def
         buffers_sized_def emit_def Let_def\<close>)
qed

lemma perform_within_bounds:
  assumes "within_bounds n s" and "perform e a s = Some s'"
  shows "within_bounds n s'"
proof (cases a)
  case ThreadStep
  with assms show ?thesis by (auto simp: step_within_bounds)
next
  case (CallConfig kw)
  obtain r s1 where c: "config_keithley e kw s = (r, s1)" by (cases "config_keithley e kw s")
  from c assms(1) have "within_bounds n s1"
    using keepsD [OF keeps_buffers_sized_config c] config_keithley_keeps(2) [OF c]
      keepsD [OF keeps_gpib_thread_config c]
    by (simp add: within_bounds_def)
  with CallConfig assms(2) c show ?thesis by simp
next
  case CallStart
  have "within_bounds n s'" if "wait_receiving e s0 = Some s'" and "within_bounds n s0" for s0
    using wait_receiving_invariant [where I = "within_bounds n", OF _ that] step_within_bounds
    by blast
  moreover have "within_bounds n (start_thread (s\<lparr>is_run := True, is_receiving := False\<rparr>))"
    using assms(1) by (simp add: within_bounds_def buffers_sized_def start_thread_def)
  moreover have "within_bounds n (s\<lparr>is_run := True, is_receiving := False\<rparr>)"
    using assms(1) by (simp add: within_bounds_def buffers_sized_def)
  ultimately show ?thesis using CallStart assms(2)
    by (auto simp: read_keithley_start_def Let_def split: if_splits)
next
  case CallClose
  have j: "within_bounds n (join e s0)" if "within_bounds n s0" for s0
    using join_invariant [where I = "within_bounds n", OF _ that] step_within_bounds
    by blast
  have s1: "within_bounds n (s\<lparr>is_run := False\<rparr>)"
    using assms(1) by (simp add: within_bounds_def buffers_sized_def)
  have fin: "within_bounds n (snd (andthen (instr e Shutdown) (\<lambda>_. emits sig) s0))"
    if "within_bounds n s0" for s0 sig
    using that
    by (auto simp: andthen_def instr_def emits_def emit_def Let_def within_bounds_def buffers_sized_def)
  from CallClose assms(2) s1 j fin show ?thesis
    by (auto simp: close_def Let_def)
qed

lemma run_within_bounds:
  "within_bounds n s \<Longrightarrow> run e acts s = Some s' \<Longrightarrow> within_bounds n s'"
proof (induction acts arbitrary: s)
  case Nil
  then show ?case by simp
next
  case (Cons a acts)
  then show ?case by (auto split: option.splits dest: perform_within_bounds)
qed

lemma init_within_bounds:
  assumes "init port n avg reps rd d lo hi c = Inr s"
  shows "within_bounds n s" and "0 \<le> n"
  using assms linspace_length [of lo hi n]
  by (auto simp: init_def within_bounds_def buffers_sized_def zeros_like_def linspace_def
        split: sum.splits if_splits)

text \<open>
  Claim C10. From the constructor onward, whatever the thread and the callers do and
  whatever the instrument does, \<^verbatim>\<open>n_data_points\<close> keeps the value \<open>n\<close> given to the
  constructor, all seven arrays (the plan and the six sample arrays) have the length
  \<open>n\<close>, and no array access of the thread is out of bounds: the thread never ends with
  an \<^verbatim>\<open>IndexError\<close>.
\<close>

theorem buffers_never_resized:
  assumes "init port n avg reps rd d lo hi c = Inr s0" and "run e acts s0 = Some s"
  shows "0 \<le> n \<and> n_data_points s = n \<and>
         length (voltages_set s) = nat n \<and> length (times s) = nat n \<and> length (voltages s) = nat n \<and>
         length (currents s) = nat n \<and> length (currents_std s) = nat n \<and>
         length (resistances s) = nat n \<and> length (powers s) = nat n \<and>
         gpib_thread s \<noteq> Some (Crashed IndexError)"
  using run_within_bounds [OF init_within_bounds(1) [OF assms(1)] assms(2)]
    init_within_bounds(2) [OF assms(1)]
  by (simp add: within_bounds_def buffers_sized_def)

theorem buffers_never_resized_witness:
  "init ''GPIB::24'' 2 5 2 2 (1/4) 0 1 (1/2) = Inr bench \<and>
   map_option (length \<circ> currents) (run quiet [CallStart, ThreadStep, CallConfig all_options, CallClose] bench) = Some 2 \<and>
   map_option gpib_thread (run quiet [CallStart, ThreadStep, CallConfig all_options, CallClose] bench) = Some (Some Exited)"
proof -
  have h: "init ''GPIB::24'' 2 5 2 2 (1/4) 0 1 (1/2) = Inr bench" by code_simp
  have t: "map_option gpib_thread (run quiet [CallStart, ThreadStep, CallConfig all_options, CallClose] bench) = Some (Some Exited)"
    by code_simp
  then obtain s where r: "run quiet [CallStart, ThreadStep, CallConfig all_options, CallClose] bench = Some s"
    by blast
  from buffers_never_resized [OF h r] r t h show ?thesis by simp
qed

section \<open>\<^verbatim>\<open>read_keithley_start\<close>\<close>











text \<open>
  A remark beside the claim: the second call sets \<^verbatim>\<open>is_run\<close> again. When it lands after
  line 111 has cleared the flag and before the thread tests it, the one thread runs the
  sweep a second time: still one thread, and two \<^verbatim>\<open>save\<close> signals for one repetition.
\<close>

lemma rearmed_flag_repeats_sweep:
  "map_option gpib_thread (run quiet [CallStart, ThreadStep, ThreadStep, ThreadStep] simulation1) =
     Some (Some WhileHead) \<and>
   map_option (saved \<circ> signals)
     (run quiet [CallStart, ThreadStep, ThreadStep, ThreadStep, CallStart, ThreadStep, CallClose] simulation1) =
     Some [0, 0] \<and>
   map_option spawned
     (run quiet [CallStart, ThreadStep, ThreadStep, ThreadStep, CallStart, ThreadStep, CallClose] simulation1) =
     Some 1"
  by code_simp

section \<open>\<^verbatim>\<open>close\<close>\<close>

lemma thread_alive_fields [simp]:
  "thread_alive (s\<lparr>is_run := b\<rparr>) = thread_alive s"
  "thread_alive (s\<lparr>signals := sg\<rparr>) = thread_alive s"
  "thread_alive (s\<lparr>commands := cs, tick := t\<rparr>) = thread_alive s"
  by (simp_all add: thread_alive_def)

lemma keeps_close_tail:
  assumes "\<And>f s. g (commands_update f s) = g s" "\<And>f s. g (tick_update f s) = g s"
    "\<And>f s. g (signals_update f s) = g s"
  shows "keeps g (andthen (instr e Shutdown) (\<lambda>_. emits sig))"
  by (intro keeps_andthen; simp add: keeps_def stmt_defs Let_def assms)

lemma step_stopped:
  assumes "\<not> is_run s"
  shows "\<not> is_run (background_thread_step e s)"
proof (cases "gpib_thread s")
  case None
  with assms show ?thesis by (simp add: background_thread_step_def)
next
  case (Some p)
  with assms show ?thesis
    by (cases p)
       (auto simp: background_thread_step_def run_stmt_def goto_def emit_def Let_def instr_def
          measure_point_keeps config_keithley_keeps split: prod.splits sum.splits)
qed

lemma close_facts:
  "\<not> thread_alive (snd (close e s))" "\<not> is_run (snd (close e s))"
proof -
  let ?s1 = "s\<lparr>is_run := False\<rparr>"
  let ?s2 = "if gpib_thread ?s1 \<noteq> None then join e ?s1 else ?s1"
  have a: "\<not> thread_alive ?s2"
  proof (cases "gpib_thread ?s1 = None")
    case True
    then show ?thesis by (simp add: thread_alive_def)
  next
    case False
    then show ?thesis using join_not_alive [of e ?s1] by simp
  qed
  have "\<not> is_run (join e ?s1)"
    using join_invariant [where I = "\<lambda>s. \<not> is_run s" and e = e and s = ?s1] step_stopped by simp
  then have r: "\<not> is_run ?s2" by simp
  have k1: "keeps thread_alive (andthen (instr e Shutdown) (\<lambda>_. emits sig))" for sig
    by (rule keeps_close_tail) (simp_all add: thread_alive_def)
  have k2: "keeps is_run (andthen (instr e Shutdown) (\<lambda>_. emits sig))" for sig
    by (rule keeps_close_tail) simp_all
  from a k1 show "\<not> thread_alive (snd (close e s))"
    unfolding close_def Let_def keeps_def by (simp del: thread_alive_fields)
  from r k2 show "\<not> is_run (snd (close e s))"
    unfolding close_def Let_def keeps_def by simp
qed

text \<open>
  Claim C2, as amended. When \<^verbatim>\<open>close\<close> has returned or raised, the thread is no longer
  alive. A second call of \<^verbatim>\<open>close\<close> changes nothing when the port is \<^verbatim>\<open>'dummy'\<close>; with
  an opened instrument it calls \<^verbatim>\<open>shutdown()\<close> once more and, unless that call fails,
  emits the log line \<^verbatim>\<open>Disconnected Keithley...\<close> once more.
\<close>

theorem close_joins_and_repeats:
  "\<not> thread_alive (snd (close e s)) \<and>
   (gpib_port (snd (close e s)) = ''dummy'' \<longrightarrow>
      close e' (snd (close e s)) = (Inr (), snd (close e s))) \<and>
   (gpib_port (snd (close e s)) \<noteq> ''dummy'' \<and> sourcemeter (snd (close e s)) \<noteq> None \<longrightarrow>
      commands (snd (close e' (snd (close e s)))) = commands (snd (close e s)) @ [Shutdown] \<and>
      (\<not> fails e' (tick (snd (close e s))) \<longrightarrow>
         signals (snd (close e' (snd (close e s)))) =
           signals (snd (close e s)) @ [ToLog (log_line ''000000'' ''Disconnected Keithley...'')]))"
proof -
  let ?s = "snd (close e s)"
  note f = close_facts [of e s]
  from f(2) have same: "?s\<lparr>is_run := False\<rparr> = ?s" by simp
  have j: "join e' ?s = ?s" using f(1) by (rule join_ended)
  have pre: "(if gpib_thread (?s\<lparr>is_run := False\<rparr>) \<noteq> None then join e' (?s\<lparr>is_run := False\<rparr>)
              else ?s\<lparr>is_run := False\<rparr>) = ?s"
    using same j by simp
  have c: "close e' ?s = (if gpib_port ?s \<noteq> ''dummy''
             then andthen (instr e' Shutdown) (\<lambda>_. emits (ToLog (log_line ''000000'' ''Disconnected Keithley...''))) ?s
             else (Inr (), ?s))"
    unfolding close_def [of e' ?s] Let_def pre ..
  show ?thesis
    using f(1) by (auto simp: c andthen_def instr_def emits_def emit_def Let_def)
qed

theorem close_joins_and_repeats_witness:
  "map_option gpib_thread (run quiet [CallStart, CallClose] simulation) = Some (Some Exited) \<and>
   map_option (snd \<circ> close quiet) (run quiet [CallStart, CallClose] simulation) =
     run quiet [CallStart, CallClose] simulation"
proof -
  have t: "map_option gpib_thread (run quiet [CallStart, CallClose] simulation) = Some (Some Exited)"
    by code_simp
  have "gpib_port (snd (close quiet (the (read_keithley_start quiet simulation)))) = ''dummy''"
    by code_simp
  with close_joins_and_repeats [of quiet "the (read_keithley_start quiet simulation)" quiet]
  have "close quiet (snd (close quiet (the (read_keithley_start quiet simulation)))) =
        (Inr (), snd (close quiet (the (read_keithley_start quiet simulation))))" by blast
  moreover have "read_keithley_start quiet simulation \<noteq> None" by code_simp
  ultimately show ?thesis using t by (auto simp: comp_def)
qed

text \<open>
  Claim C2 as stated fails with an instrument: after \<^verbatim>\<open>read_keithley_start\<close> and
  \<^verbatim>\<open>close\<close> on \<open>bench\<close>, a second \<^verbatim>\<open>close\<close> shuts the instrument down a second time and
  emits a second disconnect log line.
\<close>

theorem second_close_shuts_down_again_counterexample:
  "map_option shutdowns (run quiet [CallStart, CallClose] bench) = Some 1 \<and>
   map_option disconnects (run quiet [CallStart, CallClose] bench) = Some 1 \<and>
   map_option shutdowns (run quiet [CallStart, CallClose, CallClose] bench) = Some 2 \<and>
   map_option disconnects (run quiet [CallStart, CallClose, CallClose] bench) = Some 2"
  by code_simp

section \<open>The stop request\<close>

text \<open>
  \<^verbatim>\<open>close\<close> requests the stop by clearing \<^verbatim>\<open>is_run\<close> (line 114). Nothing inside the body
  of the \<^verbatim>\<open>while\<close> loop reads the flag.
\<close>

lemma ignores_stop_andthen:
  assumes "ignores_stop m" and "\<And>x. ignores_stop (f x)"
  shows "ignores_stop (andthen m f)"
  unfolding ignores_stop_def
proof
  fix s
  obtain r s' where ms: "m s = (r, s')" by (cases "m s")
  with assms(1) have mu: "m (s\<lparr>is_run := False\<rparr>) = (r, s'\<lparr>is_run := False\<rparr>)"
    by (simp add: ignores_stop_def)
  show "andthen m f (s\<lparr>is_run := False\<rparr>) =
        (fst (andthen m f s), (snd (andthen m f s))\<lparr>is_run := False\<rparr>)"
  proof (cases r)
    case (Inl err)
    with ms mu show ?thesis by (simp add: andthen_def)
  next
    case (Inr x)
    with ms mu assms(2) [of x] show ?thesis by (simp add: andthen_def ignores_stop_def)
  qed
qed

lemma ignores_stop_instr: "ignores_stop (instr e c)"
  by (simp add: ignores_stop_def instr_def Let_def)

lemma ignores_stop_measure_point: "ignores_stop (measure_point e dp)"
  unfolding measure_point_def
  by (intro ignores_stop_andthen; simp add: ignores_stop_def stmt_defs Let_def)

lemma run_stmt_ignores_stop:
  "ignores_stop m \<Longrightarrow> run_stmt m q (s\<lparr>is_run := False\<rparr>) = (run_stmt m q s)\<lparr>is_run := False\<rparr>"
  by (cases "m s") (auto simp: run_stmt_def goto_def ignores_stop_def split: sum.splits)

lemma step_ignores_stop:
  assumes "in_sweep s"
  shows "background_thread_step e (s\<lparr>is_run := False\<rparr>) = (background_thread_step e s)\<lparr>is_run := False\<rparr>"
proof (cases "gpib_thread s")
  case None
  with assms show ?thesis by (simp add: in_sweep_def)
next
  case (Some p)
  with assms show ?thesis
    by (cases p)
       (simp_all add: in_sweep_def background_thread_step_def goto_def emit_def Let_def
          run_stmt_ignores_stop ignores_stop_measure_point ignores_stop_instr)
qed

lemma run_stmt_pc:
  "gpib_thread (run_stmt m q s) = Some q \<or> (\<exists>err. gpib_thread (run_stmt m q s) = Some (Crashed err))"
  by (cases "m s") (auto simp: run_stmt_def goto_def split: sum.splits)

lemma step_past_test:
  assumes "in_sweep s"
  shows "past_test (background_thread_step e s)"
proof (cases "gpib_thread s")
  case None
  with assms show ?thesis by (simp add: in_sweep_def)
next
  case (Some p)
  show ?thesis
  proof (cases p)
    case (PointHead k dp)
    with Some run_stmt_pc [of "measure_point e dp" "PointHead k (dp + 1)" s]
      run_stmt_pc [of "instr e (SetSourceVoltage 0)" "RepEnd k" s]
    show ?thesis
      by (auto simp: background_thread_step_def past_test_def in_sweep_def thread_alive_def)
  qed (use assms Some in \<open>auto simp: in_sweep_def background_thread_step_def goto_def emit_def Let_def
         past_test_def thread_alive_def\<close>)
qed

lemma join_ignores_stop:
  "past_test s \<Longrightarrow> join e (s\<lparr>is_run := False\<rparr>) = (join e s)\<lparr>is_run := False\<rparr>"
proof (induction e s rule: join.induct)
  case (1 e s)
  have alive: "thread_alive (s\<lparr>is_run := False\<rparr>) = thread_alive s"
    by (simp add: thread_alive_def)
  show ?case
  proof (cases "thread_alive s")
    case False
    with alive show ?thesis by (simp add: join_ended)
  next
    case True
    show ?thesis
    proof (cases "in_sweep s")
      case sweep: True
      have "join e (s\<lparr>is_run := False\<rparr>) = join e (background_thread_step e (s\<lparr>is_run := False\<rparr>))"
        using True alive by (simp add: join_alive)
      also have "\<dots> = join e ((background_thread_step e s)\<lparr>is_run := False\<rparr>)"
        using sweep by (simp add: step_ignores_stop)
      also have "\<dots> = (join e (background_thread_step e s))\<lparr>is_run := False\<rparr>"
        using 1(1) [OF True step_past_test [OF sweep]] .
      also have "join e (background_thread_step e s) = join e s"
        using True by (simp add: join_alive)
      finally show ?thesis .
    next
      case False
      with 1(2) True have w: "gpib_thread s = Some WhileHead" "\<not> is_run s"
        by (auto simp: past_test_def)
      then have same: "s\<lparr>is_run := False\<rparr> = s" by simp
      have st: "background_thread_step e s = goto Exited s"
        using w by (simp add: background_thread_step_def)
      have j: "join e s = goto Exited s"
        using True st by (simp add: join_alive join_ended thread_alive_def goto_def)
      have "join e (s\<lparr>is_run := False\<rparr>) = join e s" by (simp only: same)
      moreover have "(join e s)\<lparr>is_run := False\<rparr> = join e s"
        using j w(2) by (simp add: goto_def)
      ultimately show ?thesis by simp
    qed
  qed
qed

text \<open>
  Claim C1, as amended. The thread reads the stop flag at the test of
  \<^verbatim>\<open>while self.is_run\<close> only. A stop requested when the thread is at that test makes it
  return at once, without starting a repetition. A stop requested at the top of a
  repetition or of a per-point pass (or anywhere else inside the body of the \<^verbatim>\<open>while\<close>
  loop) changes nothing of what the thread does until it ends: it emits the same signals
  and makes the same instrument calls as without the request, so all remaining
  repetitions are run.
\<close>

theorem stop_flag_read_at_while_only:
  "(gpib_thread s = Some WhileHead \<longrightarrow>
      join e (s\<lparr>is_run := False\<rparr>) = s\<lparr>is_run := False, gpib_thread := Some Exited\<rparr>) \<and>
   (in_sweep s \<longrightarrow>
      join e (s\<lparr>is_run := False\<rparr>) = (join e s)\<lparr>is_run := False\<rparr> \<and>
      signals (join e (s\<lparr>is_run := False\<rparr>)) = signals (join e s) \<and>
      commands (join e (s\<lparr>is_run := False\<rparr>)) = commands (join e s))"
proof -
  have a: "join e (s\<lparr>is_run := False\<rparr>) = s\<lparr>is_run := False, gpib_thread := Some Exited\<rparr>"
    if "gpib_thread s = Some WhileHead"
  proof -
    let ?s = "s\<lparr>is_run := False\<rparr>"
    have "thread_alive ?s" using that by (simp add: thread_alive_def)
    then have "join e ?s = join e (background_thread_step e ?s)" by (rule join_alive)
    also have "background_thread_step e ?s = goto Exited ?s"
      using that by (simp add: background_thread_step_def)
    also have "join e (goto Exited ?s) = goto Exited ?s"
      by (rule join_ended) (simp add: thread_alive_def goto_def)
    finally show ?thesis by (simp add: goto_def)
  qed
  have b: "join e (s\<lparr>is_run := False\<rparr>) = (join e s)\<lparr>is_run := False\<rparr>" if "in_sweep s"
    using that by (intro join_ignores_stop) (simp add: past_test_def)
  from a b show ?thesis by simp
qed

theorem stop_flag_read_at_while_only_witness:
  "map_option gpib_thread (run quiet [CallStart, ThreadStep] simulation) = Some (Some (ForHead 1)) \<and>
   map_option in_sweep (run quiet [CallStart, ThreadStep] simulation) = Some True \<and>
   map_option (saved \<circ> signals \<circ> join quiet \<circ> is_run_update (\<lambda>_. False))
     (run quiet [CallStart, ThreadStep] simulation) =
   map_option (saved \<circ> signals \<circ> join quiet) (run quiet [CallStart, ThreadStep] simulation)"
proof -
  have p: "map_option gpib_thread (run quiet [CallStart, ThreadStep] simulation) = Some (Some (ForHead 1))"
    by code_simp
  then obtain s where r: "run quiet [CallStart, ThreadStep] simulation = Some s" by blast
  with p have "in_sweep s" by (simp add: in_sweep_def)
  with stop_flag_read_at_while_only [of s quiet] r p show ?thesis by simp
qed

text \<open>
  Claim C1 as stated fails. In \<open>simulation\<close> (two repetitions) the stop is requested by
  \<^verbatim>\<open>close\<close> when repetition 0 is done and the thread is at the top of repetition 1: the
  thread still runs repetition 1 and emits its \<^verbatim>\<open>save\<close> signal. On \<open>bench\<close> the stop is
  requested at the top of the second per-point pass of repetition 0: both repetitions
  are completed.
\<close>

theorem stop_at_repetition_top_counterexample:
  "map_option gpib_thread (run quiet [CallStart, ThreadStep] simulation) = Some (Some (ForHead 1)) \<and>
   map_option (saved \<circ> signals) (run quiet [CallStart, ThreadStep] simulation) = Some [0] \<and>
   map_option (saved \<circ> signals) (run quiet [CallStart, ThreadStep, CallClose] simulation) = Some [0, 1] \<and>
   map_option gpib_thread (run quiet [CallStart] bench) = Some (Some (PointHead 0 1)) \<and>
   map_option (saved \<circ> signals) (run quiet [CallStart, CallClose] bench) = Some [0, 1]"
  by code_simp

section \<open>The \<^verbatim>\<open>save\<close> signals of a run\<close>


lemma alive_pc [simp]:
  "gpib_thread s = Some Setup \<Longrightarrow> thread_alive s"
  "gpib_thread s = Some WhileHead \<Longrightarrow> thread_alive s"
  "gpib_thread s = Some (ForHead k) \<Longrightarrow> thread_alive s"
  "gpib_thread s = Some (PointHead k dp) \<Longrightarrow> thread_alive s"
  "gpib_thread s = Some (RepEnd k) \<Longrightarrow> thread_alive s"
  "gpib_thread s = Some WhileEnd \<Longrightarrow> thread_alive s"
  by (simp_all add: thread_alive_def)









end
